theory Spec2Isabelle
  imports Main "HOL-Library.Word"
begin

section \<open>JavaScript values used by the scheduler\<close>

text \<open>
  A JavaScript string is a sequence of UTF-16 code units and \<open>.length\<close> counts code
  units, so a string is a list of 16-bit words. Numbers that the program handles are
  timestamps in milliseconds, delays and counters; they are modelled as mathematical
  integers, which is exact for JavaScript numbers of magnitude up to \<open>2 ^ 53\<close>. Beyond
  it the program computes with the nearest doubles; every time the timer accepts lies
  below it.
\<close>

type_synonym jsstring = "16 word list"

definition str :: "string \<Rightarrow> jsstring" where
  "str s = map of_char s"

text \<open>
  The exceptions of the program. \<open>NonFinite\<close> is not one of them: it marks the two
  places where a number of the program is \<open>NaN\<close> or \<open>Infinity\<close>, which the
  record of the model cannot hold; the model stops there.
\<close>

datatype js_error = TypeError | RangeError | NonFinite

text \<open>
  \<open>decimal n\<close> is the text of the non-negative integer \<open>n\<close> in a template
  literal: plain decimal digits (the program prints HTTP statuses with it).
\<close>

fun decimal :: "nat \<Rightarrow> jsstring" where
  "decimal n = (if n < 10 then [of_nat (48 + n)]
                else decimal (n div 10) @ [of_nat (48 + n mod 10)])"

declare decimal.simps [simp del]

text \<open>
  The values that can arrive in a \<open>catch\<close> clause, by the three cases that
  \<open>truncateError\<close> tells apart: an \<open>Error\<close> instance (with its message), a string
  primitive, and any other value. The other values are told apart by what
  \<open>JSON.stringify\<close> does with them: \<open>Serialised s\<close> is a number, an array or an
  object for which it returns the text \<open>s\<close>, and \<open>Cyclic\<close> an object that refers to
  itself.
\<close>

datatype other_value =
    Undefined
  | Null
  | Boolean bool
  | Function
  | Symbol
  | BigInt int
  | Serialised jsstring
  | Cyclic

datatype thrown =
    ErrorInstance jsstring
  | StringPrimitive jsstring
  | Other other_value

text \<open>
  \<open>JSON.stringify\<close> of ECMAScript on these values: \<open>undefined\<close>, functions and
  symbols give \<open>undefined\<close> (here \<open>None\<close>), a BigInt and a cyclic object throw a
  TypeError.
\<close>

fun JSON_stringify :: "other_value \<Rightarrow> js_error + jsstring option" where
  "JSON_stringify Undefined = Inr None"
| "JSON_stringify Null = Inr (Some (str ''null''))"
| "JSON_stringify (Boolean b) = Inr (Some (if b then str ''true'' else str ''false''))"
| "JSON_stringify Function = Inr None"
| "JSON_stringify Symbol = Inr None"
| "JSON_stringify (BigInt n) = Inl TypeError"
| "JSON_stringify (Serialised s) = Inr (Some s)"
| "JSON_stringify Cyclic = Inl TypeError"

subsection \<open>truncateError\<close>

text \<open>
  \<^verbatim>\<open>return message.length > 500 ? `${message.slice(0, 497)}...` : message;\<close>
\<close>

definition truncate_message :: "jsstring \<Rightarrow> jsstring" where
  "truncate_message message =
     (if length message > 500 then take 497 message @ str ''...'' else message)"

text \<open>
  Reading \<open>.length\<close> of \<open>undefined\<close> throws a TypeError; an exception of
  \<open>JSON.stringify\<close> propagates.
\<close>

definition truncateError :: "thrown \<Rightarrow> js_error + jsstring" where
  "truncateError error =
     (case error of
        ErrorInstance message \<Rightarrow> Inr (truncate_message message)
      | StringPrimitive s \<Rightarrow> Inr (truncate_message s)
      | Other v \<Rightarrow>
          (case JSON_stringify v of
             Inl e \<Rightarrow> Inl e
           | Inr None \<Rightarrow> Inl TypeError
           | Inr (Some message) \<Rightarrow> Inr (truncate_message message)))"

section \<open>The scheduling record and the durable object\<close>

datatype BuildStatus = Success | Error

record SchedulerState =
  lastWebhookAt :: "int option"
  scheduledFor :: "int option"
  lastBuildAt :: "int option"
  lastBuildStatus :: "BuildStatus option"
  lastError :: "jsstring option"
  retryCount :: "int option"
  delayMs :: "int option"
  webhookUrl :: "jsstring option"

record QueueResponse =
  queued_lastWebhookAt :: int
  queued_scheduledFor :: int
  queued_delayMs :: int

text \<open>
  The text of \<open>new Date(v).toISOString()\<close> is represented by the time value it
  denotes. ECMAScript's time values range over \<open>\<plusminus> 8.64e15\<close> milliseconds; outside it the
  date is invalid and \<open>toISOString\<close> throws a RangeError.
\<close>

datatype iso_string = ISO int

definition Date_toISOString :: "int \<Rightarrow> js_error + iso_string" where
  "Date_toISOString v =
     (if \<bar>v\<bar> \<le> 8640000000000000 then Inr (ISO v) else Inl RangeError)"

record StatusResponse =
  status_lastWebhookAt :: "iso_string option"
  status_scheduledFor :: "iso_string option"
  status_lastBuildAt :: "iso_string option"
  status_lastBuildStatus :: "BuildStatus option"
  status_lastError :: "jsstring option"
  status_retryCount :: int
  status_delayMs :: "int option"
  status_webhookUrl :: "jsstring option"

text \<open>
  What leaves the object: writes of the record under \<open>STATE_KEY\<close>, \<open>setAlarm\<close>
  calls that armed the alarm, and outbound requests (URL and method), in the order they
  happen. Console output is not recorded.
\<close>

datatype effect =
    Put SchedulerState
  | SetAlarm int
  | Fetch jsstring jsstring

text \<open>
  The durable object as the code sees it: the value stored under \<open>STATE_KEY\<close> (if
  any), the single alarm slot of the storage, and the effects so far. Reads and writes
  of the storage are taken to succeed.
\<close>

record durable_object =
  stored :: "SchedulerState option"
  armed :: "int option"
  effects :: "effect list"

text \<open>JavaScript truthiness of an optional number and of an optional string.\<close>

definition truthy_number :: "int option \<Rightarrow> bool" where
  "truthy_number v = (case v of None \<Rightarrow> False | Some n \<Rightarrow> n \<noteq> 0)"

definition truthy_string :: "jsstring option \<Rightarrow> bool" where
  "truthy_string v = (case v of None \<Rightarrow> False | Some s \<Rightarrow> s \<noteq> [])"

definition getState :: "durable_object \<Rightarrow> SchedulerState" where
  "getState d =
     (case stored d of
        Some state \<Rightarrow> state
      | None \<Rightarrow>
          \<lparr>lastWebhookAt = None, scheduledFor = None, lastBuildAt = None,
           lastBuildStatus = None, lastError = None, retryCount = Some 0,
           delayMs = None, webhookUrl = None\<rparr>)"

definition setState :: "SchedulerState \<Rightarrow> durable_object \<Rightarrow> durable_object" where
  "setState state d = d\<lparr>stored := Some state, effects := effects d @ [Put state]\<rparr>"

text \<open>
  The alarm of the storage keeps its time in 64-bit nanoseconds: \<open>setAlarm\<close> takes a
  time after the epoch and up to 9223372036854 ms (the year 2262); for any other time it
  throws a TypeError and arms nothing.
\<close>

definition timer_accepts :: "int \<Rightarrow> bool" where
  "timer_accepts t = (0 < t \<and> t \<le> 9223372036854)"

definition setAlarm :: "int \<Rightarrow> durable_object \<Rightarrow> js_error + durable_object" where
  "setAlarm t d =
     (if timer_accepts t
      then Inr (d\<lparr>armed := Some t, effects := effects d @ [SetAlarm t]\<rparr>)
      else Inl TypeError)"

text \<open>\<open>state.retryCount ?? 0\<close>\<close>

definition retryCount_or_0 :: "SchedulerState \<Rightarrow> int" where
  "retryCount_or_0 state = (case retryCount state of None \<Rightarrow> 0 | Some n \<Rightarrow> n)"

subsection \<open>queueBuild\<close>

text \<open>
  \<open>now\<close> is the value of \<open>Date.now()\<close>. \<open>Math.round\<close> is the identity on the
  integer \<open>delaySeconds * 1000\<close>. The record is written before the alarm is set, so
  it stays written when \<open>setAlarm\<close> throws. The log line is built after both; it
  calls \<open>toISOString\<close>. For a delay beyond \<open>2 ^ 53\<close> the numbers that the code
  writes are the nearest doubles (\<open>Infinity\<close> on overflow) where the model has the
  exact integers; \<open>setAlarm\<close> refuses all of them.
\<close>

definition queueBuild ::
  "int \<Rightarrow> jsstring \<Rightarrow> int \<Rightarrow> durable_object \<Rightarrow> (js_error + QueueResponse) \<times> durable_object"
where
  "queueBuild now url delaySeconds d =
     (let state = getState d;
          delay = delaySeconds * 1000;
          at = now + delay;
          state' = state\<lparr>lastWebhookAt := Some now, scheduledFor := Some at,
                         retryCount := Some 0, delayMs := Some delay,
                         webhookUrl := Some url\<rparr>;
          d1 = setState state' d
      in case setAlarm at d1 of
           Inl e \<Rightarrow> (Inl e, d1)
         | Inr d2 \<Rightarrow>
             (case Date_toISOString at of
                Inl e \<Rightarrow> (Inl e, d2)
              | Inr logged \<Rightarrow>
                  (Inr \<lparr>queued_lastWebhookAt = now, queued_scheduledFor = at,
                        queued_delayMs = delay\<rparr>, d2)))"

subsection \<open>getStatus\<close>

definition toIso :: "int option \<Rightarrow> js_error + iso_string option" where
  "toIso v =
     (case v of
        None \<Rightarrow> Inr None
      | Some n \<Rightarrow>
          if n = 0 then Inr None
          else (case Date_toISOString n of Inl e \<Rightarrow> Inl e | Inr s \<Rightarrow> Inr (Some s)))"

definition getStatus :: "durable_object \<Rightarrow> js_error + StatusResponse" where
  "getStatus d =
     (let state = getState d in
      case toIso (lastWebhookAt state) of
        Inl e \<Rightarrow> Inl e
      | Inr w \<Rightarrow>
     (case toIso (scheduledFor state) of
        Inl e \<Rightarrow> Inl e
      | Inr s \<Rightarrow>
     (case toIso (lastBuildAt state) of
        Inl e \<Rightarrow> Inl e
      | Inr b \<Rightarrow>
          Inr \<lparr>status_lastWebhookAt = w, status_scheduledFor = s, status_lastBuildAt = b,
               status_lastBuildStatus = lastBuildStatus state,
               status_lastError = lastError state,
               status_retryCount = retryCount_or_0 state,
               status_delayMs = delayMs state,
               status_webhookUrl = webhookUrl state\<rparr>)))"

subsection \<open>alarm\<close>

text \<open>
  \<^verbatim>\<open>retryWindowsMs[Math.min(retryCount - 1, retryWindowsMs.length - 1)]\<close>; an index
  below 0 reads \<open>undefined\<close> (here \<open>None\<close>).
\<close>

definition getRetryDelayMs :: "int \<Rightarrow> int option" where
  "getRetryDelayMs n =
     (let retryWindowsMs = [60000, 120000, 300000 :: int];
          i = min (n - 1) (int (length retryWindowsMs) - 1)
      in if 0 \<le> i then Some (retryWindowsMs ! nat i) else None)"

text \<open>
  The outcome of the outbound \<open>fetch\<close>: a response with its HTTP status, or a
  rejection, which \<open>fetch\<close> makes with an \<open>Error\<close> (its message is kept).
  \<open>response.ok\<close> holds for the statuses 200 to 299.
\<close>

datatype fetch_outcome = Responded nat | Rejected jsstring

definition response_ok :: "nat \<Rightarrow> bool" where
  "response_ok status = (200 \<le> status \<and> status \<le> 299)"

text \<open>
  The \<open>try\<close> block up to the check of the response: \<open>None\<close> when it goes on to the
  success assignments, otherwise the value that reaches the \<open>catch\<close> clause.
\<close>

definition trigger :: "fetch_outcome \<Rightarrow> thrown option" where
  "trigger outcome =
     (case outcome of
        Responded status \<Rightarrow>
          if response_ok status then None
          else Some (ErrorInstance (str ''Build webhook responded with HTTP '' @ decimal status))
      | Rejected message \<Rightarrow> Some (ErrorInstance message))"

text \<open>
  The \<open>catch\<close> clause. With a retry count below 1 the delay is \<open>undefined\<close> and
  the next alarm time is \<open>NaN\<close>: the code writes the record with that time and
  \<open>setAlarm\<close> throws. The model stops before the write with \<open>NonFinite\<close>; no
  record written by the program has such a count.
\<close>

definition alarm_catch ::
  "int \<Rightarrow> thrown \<Rightarrow> SchedulerState \<Rightarrow> durable_object \<Rightarrow> (js_error + unit) \<times> durable_object"
where
  "alarm_catch now error state d =
     (let n = retryCount_or_0 state + 1 in
      case getRetryDelayMs n of
        None \<Rightarrow> (Inl NonFinite, d)
      | Some retryDelayMs \<Rightarrow>
          (let nextAlarm = now + retryDelayMs in
           case truncateError error of
             Inl e \<Rightarrow> (Inl e, d)
           | Inr message \<Rightarrow>
               (let state' = state\<lparr>lastBuildAt := Some now, lastBuildStatus := Some Error,
                                    lastError := Some message, retryCount := Some n,
                                    scheduledFor := Some nextAlarm\<rparr>;
                    d1 = setState state' d
                in case setAlarm nextAlarm d1 of
                     Inl e \<Rightarrow> (Inl e, d1)
                   | Inr d2 \<Rightarrow>
                       (case Date_toISOString nextAlarm of
                          Inl e \<Rightarrow> (Inl e, d2)
                        | Inr logged \<Rightarrow> (Inr (), d2)))))"

text \<open>
  \<open>now\<close> is the value of the one \<open>Date.now()\<close> call on the path taken, and
  \<open>outcome\<close> what the target does if it is called.
\<close>

definition alarm ::
  "int \<Rightarrow> fetch_outcome \<Rightarrow> durable_object \<Rightarrow> (js_error + unit) \<times> durable_object"
where
  "alarm now outcome d =
     (let state = getState d in
      if \<not> truthy_number (scheduledFor state) then (Inr (), d)
      else if \<not> truthy_string (webhookUrl state) then
        (Inr (),
         setState (state\<lparr>lastBuildAt := Some now, lastBuildStatus := Some Error,
                         lastError := Some (str ''No webhook URL available for execution.''),
                         retryCount := Some (retryCount_or_0 state + 1)\<rparr>) d)
      else
        (let d1 = d\<lparr>effects := effects d @ [Fetch (the (webhookUrl state)) (str ''POST'')]\<rparr>
         in case trigger outcome of
              None \<Rightarrow>
                (Inr (),
                 setState (state\<lparr>lastBuildAt := Some now, lastBuildStatus := Some Success,
                                 lastError := None, retryCount := Some 0,
                                 scheduledFor := None\<rparr>) d1)
            | Some error \<Rightarrow> alarm_catch now error state d1))"

text \<open>
  The platform's alarm is a single slot that is used up by firing: when the alarm is due
  the slot is emptied and the handler runs, and the object has an alarm afterwards only
  if the handler called \<open>setAlarm\<close>. Nothing is delivered while the slot is empty.
\<close>

definition deliver_alarm ::
  "(durable_object \<Rightarrow> (js_error + unit) \<times> durable_object) \<Rightarrow> durable_object
     \<Rightarrow> (js_error + unit) \<times> durable_object"
where
  "deliver_alarm handler d =
     (case armed d of
        None \<Rightarrow> (Inr (), d)
      | Some t \<Rightarrow> handler (d\<lparr>armed := None\<rparr>))"

text \<open>
  The record and the timer agree: a \<open>scheduledFor\<close> that is set in the persisted
  record is the time the alarm slot is armed for.
\<close>

definition timer_consistent :: "durable_object \<Rightarrow> bool" where
  "timer_consistent d =
     (case stored d of
        None \<Rightarrow> True
      | Some state \<Rightarrow>
          (case scheduledFor state of None \<Rightarrow> True | Some t \<Rightarrow> armed d = Some t))"

section \<open>The gateway\<close>

subsection \<open>Number.parseInt with radix 10\<close>

text \<open>
  Leading white space and line terminators are skipped, one sign is read, and the longest
  run of decimal digits that follows is the value; with no digit the result is NaN (here
  \<open>None\<close>). What follows the digits is ignored. \<open>parseInt10\<close> gives the integer
  that the digits denote; the number the program gets is the double nearest to it,
  which is \<open>Infinity\<close> from \<open>2 ^ 1024 - 2 ^ 970\<close> on.
\<close>

definition is_StrWhiteSpaceChar :: "16 word \<Rightarrow> bool" where
  "is_StrWhiteSpaceChar c =
     (c = 0x09 \<or> c = 0x0A \<or> c = 0x0B \<or> c = 0x0C \<or> c = 0x0D \<or> c = 0x20 \<or> c = 0xA0
      \<or> c = 0x1680 \<or> (0x2000 \<le> c \<and> c \<le> 0x200A) \<or> c = 0x2028 \<or> c = 0x2029
      \<or> c = 0x202F \<or> c = 0x205F \<or> c = 0x3000 \<or> c = 0xFEFF)"

definition is_digit :: "16 word \<Rightarrow> bool" where
  "is_digit c = (0x30 \<le> c \<and> c \<le> 0x39)"

definition digits_value :: "jsstring \<Rightarrow> int" where
  "digits_value Z = foldl (\<lambda>a c. 10 * a + (uint c - 48)) 0 Z"

definition parseInt10 :: "jsstring \<Rightarrow> int option" where
  "parseInt10 s =
     (let S = dropWhile is_StrWhiteSpaceChar s;
          (sign, S') =
            (case S of
               [] \<Rightarrow> (1, S)
             | c # rest \<Rightarrow>
                 if c = 0x2D then (- 1, rest) else if c = 0x2B then (1, rest) else (1, S));
          Z = takeWhile is_digit S'
      in if Z = [] then None else Some (sign * digits_value Z))"

definition overflows_double :: "int \<Rightarrow> bool" where
  "overflows_double n = (2 ^ 1024 - 2 ^ 970 \<le> \<bar>n\<bar>)"

subsection \<open>The fetch handler\<close>

text \<open>
  Of the request the handler reads the method, the path, the secret (header and query
  parameter) and the two scheduling headers; a header that is not sent is \<open>None\<close>.
\<close>

record Request =
  req_method :: jsstring
  req_pathname :: jsstring
  x_webhook_secret :: "jsstring option"
  secret_param :: "jsstring option"
  x_webhook_url :: "jsstring option"
  x_delay_seconds :: "jsstring option"

text \<open>
  \<open>new URL(s)\<close> is the platform's URL parser. The handler is given it as \<open>parse\<close>,
  with \<open>None\<close> where the constructor throws, and reads the protocol and the
  serialisation of the result.
\<close>

record URL =
  protocol :: jsstring
  href :: jsstring

datatype body =
    NoBody
  | Text jsstring
  | StatusJson StatusResponse
  | QueuedJson iso_string int jsstring

record Response =
  response_status :: nat
  response_body :: body

text \<open>
  \<open>secret\<close> is \<open>env.WEBHOOK_SECRET\<close>. Both calls go to the one object named
  \<open>scheduler\<close>; an exception of the object reaches the caller of the handler.
  \<open>Number.isFinite\<close> fails for NaN and for a digit string that overflows.
  \<open>Math.round(m / 1000)\<close> of an integer \<open>m\<close> is \<open>(m + 500) div 1000\<close>.
\<close>

definition fetch_handler ::
  "(jsstring \<Rightarrow> URL option) \<Rightarrow> jsstring option \<Rightarrow> int \<Rightarrow> Request \<Rightarrow> durable_object
     \<Rightarrow> (js_error + Response) \<times> durable_object"
where
  "fetch_handler parse secret now request d =
     (if req_method request = str ''OPTIONS'' then
        (Inr \<lparr>response_status = 204, response_body = NoBody\<rparr>, d)
      else if req_method request = str ''GET'' \<and> req_pathname request = str ''/status'' then
        (case getStatus d of
           Inl e \<Rightarrow> (Inl e, d)
         | Inr status \<Rightarrow> (Inr \<lparr>response_status = 200, response_body = StatusJson status\<rparr>, d))
      else if req_method request \<noteq> str ''POST'' then
        (Inr \<lparr>response_status = 404, response_body = Text (str ''Not Found'')\<rparr>, d)
      else if truthy_string secret
              \<and> (case x_webhook_secret request of
                    Some provided \<Rightarrow> Some provided
                  | None \<Rightarrow> secret_param request) \<noteq> secret then
        (Inr \<lparr>response_status = 401, response_body = Text (str ''Unauthorized'')\<rparr>, d)
      else if \<not> truthy_string (x_webhook_url request) then
        (Inr \<lparr>response_status = 400,
              response_body = Text (str ''Missing x-webhook-url header'')\<rparr>, d)
      else
        (case parse (the (x_webhook_url request)) of
           None \<Rightarrow>
             (Inr \<lparr>response_status = 400,
                   response_body = Text (str ''Invalid x-webhook-url header'')\<rparr>, d)
         | Some parsedWebhookUrl \<Rightarrow>
             if protocol parsedWebhookUrl \<noteq> str ''http:''
                \<and> protocol parsedWebhookUrl \<noteq> str ''https:'' then
               (Inr \<lparr>response_status = 400,
                     response_body = Text (str ''Unsupported webhook protocol'')\<rparr>, d)
             else if \<not> truthy_string (x_delay_seconds request) then
               (Inr \<lparr>response_status = 400,
                     response_body = Text (str ''Missing x-delay-seconds header'')\<rparr>, d)
             else
               (case parseInt10 (the (x_delay_seconds request)) of
                  None \<Rightarrow>
                    (Inr \<lparr>response_status = 400,
                          response_body = Text (str ''Invalid x-delay-seconds header'')\<rparr>, d)
                | Some delaySeconds \<Rightarrow>
                    if overflows_double delaySeconds \<or> delaySeconds \<le> 0 then
                      (Inr \<lparr>response_status = 400,
                            response_body = Text (str ''Invalid x-delay-seconds header'')\<rparr>, d)
                    else
                      (case queueBuild now (href parsedWebhookUrl) delaySeconds d of
                         (Inl e, d') \<Rightarrow> (Inl e, d')
                       | (Inr result, d') \<Rightarrow>
                           (case Date_toISOString (queued_scheduledFor result) of
                              Inl e \<Rightarrow> (Inl e, d')
                            | Inr scheduledIso \<Rightarrow>
                                (Inr \<lparr>response_status = 202,
                                      response_body =
                                        QueuedJson scheduledIso ((queued_delayMs result + 500) div 1000)
                                          (href parsedWebhookUrl)\<rparr>, d'))))))"

section \<open>The variant with a statically configured target\<close>

text \<open>
  In this variant the target, the delay and the method come from the environment, and
  the record has no \<open>webhookUrl\<close>. Its \<open>getRetryDelayMs\<close>, \<open>getState\<close>,
  \<open>setState\<close> and \<open>truncateError\<close> are the ones above. With an infinite delay the
  code writes a record with infinite times and \<open>setAlarm\<close> throws; the model stops
  before the write with \<open>NonFinite\<close>.
\<close>

record Env =
  BUILD_WEBHOOK_URL :: "jsstring option"
  BUILD_DELAY_SECONDS :: "jsstring option"
  BUILD_TRIGGER_METHOD :: "jsstring option"

definition DEFAULT_DELAY_MS :: int where
  "DEFAULT_DELAY_MS = 15 * 60 * 1000"

text \<open>
  Only NaN and values that are not positive fall back to the default: a digit string that
  overflows gives the delay \<open>Infinity\<close> (here \<open>None\<close>).
\<close>

definition resolveDelayMs :: "Env \<Rightarrow> int option" where
  "resolveDelayMs env =
     (if \<not> truthy_string (BUILD_DELAY_SECONDS env) then Some DEFAULT_DELAY_MS
      else (case parseInt10 (the (BUILD_DELAY_SECONDS env)) of
              None \<Rightarrow> Some DEFAULT_DELAY_MS
            | Some parsedSeconds \<Rightarrow>
                if parsedSeconds \<le> 0 then Some DEFAULT_DELAY_MS
                else if overflows_double (parsedSeconds * 1000) then None
                else Some (parsedSeconds * 1000)))"

text \<open>
  \<open>toUpperCase\<close> on the letters a to z; no other code unit has G, E or T as its
  upper case, so the comparison with \<open>GET\<close> is decided by these.
\<close>

definition toUpperCase :: "jsstring \<Rightarrow> jsstring" where
  "toUpperCase s = map (\<lambda>c. if 0x61 \<le> c \<and> c \<le> 0x7A then c - 0x20 else c) s"

definition resolveTriggerMethod :: "Env \<Rightarrow> jsstring" where
  "resolveTriggerMethod env =
     (case BUILD_TRIGGER_METHOD env of
        None \<Rightarrow> str ''POST''
      | Some m \<Rightarrow> if toUpperCase m = str ''GET'' then str ''GET'' else str ''POST'')"

definition queueBuild_env ::
  "Env \<Rightarrow> int \<Rightarrow> durable_object \<Rightarrow> (js_error + QueueResponse) \<times> durable_object"
where
  "queueBuild_env env now d =
     (case resolveDelayMs env of
        None \<Rightarrow> (Inl NonFinite, d)
      | Some delay \<Rightarrow>
          (let state = getState d;
               at = now + delay;
               state' = state\<lparr>lastWebhookAt := Some now, scheduledFor := Some at,
                              retryCount := Some 0, delayMs := Some delay\<rparr>;
               d1 = setState state' d
           in case setAlarm at d1 of
                Inl e \<Rightarrow> (Inl e, d1)
              | Inr d2 \<Rightarrow>
                  (case Date_toISOString at of
                     Inl e \<Rightarrow> (Inl e, d2)
                   | Inr logged \<Rightarrow>
                       (Inr \<lparr>queued_lastWebhookAt = now, queued_scheduledFor = at,
                             queued_delayMs = delay\<rparr>, d2))))"

definition alarm_env ::
  "Env \<Rightarrow> int \<Rightarrow> fetch_outcome \<Rightarrow> durable_object \<Rightarrow> (js_error + unit) \<times> durable_object"
where
  "alarm_env env now outcome d =
     (let state = getState d in
      if \<not> truthy_number (scheduledFor state) then (Inr (), d)
      else if \<not> truthy_string (BUILD_WEBHOOK_URL env) then
        (Inr (),
         setState (state\<lparr>lastBuildAt := Some now, lastBuildStatus := Some Error,
                         lastError := Some (str ''BUILD_WEBHOOK_URL not configured.''),
                         retryCount := Some (retryCount_or_0 state + 1)\<rparr>) d)
      else
        (let d1 = d\<lparr>effects := effects d
                       @ [Fetch (the (BUILD_WEBHOOK_URL env)) (resolveTriggerMethod env)]\<rparr>
         in case trigger outcome of
              None \<Rightarrow>
                (Inr (),
                 setState (state\<lparr>lastBuildAt := Some now, lastBuildStatus := Some Success,
                                 lastError := None, retryCount := Some 0,
                                 scheduledFor := None\<rparr>) d1)
            | Some error \<Rightarrow> alarm_catch now error state d1))"

section \<open>Example inputs\<close>

text \<open>
  A new object; two objects with a pending execution, as the handler finds them when
  the alarm has fired, one after two failures and one before the first attempt; an
  environment without any binding; and a schedule request to
  \<open>https://example.com/build\<close> with a given \<open>x-delay-seconds\<close> header.
  \<open>example_parse\<close> is the URL parser on that one address.
\<close>

definition fresh :: durable_object where
  "fresh = \<lparr>stored = None, armed = None, effects = []\<rparr>"

definition pending :: durable_object where
  "pending =
     \<lparr>stored = Some \<lparr>lastWebhookAt = Some 1000, scheduledFor = Some 61000, lastBuildAt = None,
                      lastBuildStatus = None, lastError = None, retryCount = Some 2,
                      delayMs = Some 60000, webhookUrl = Some (str ''https://example.com/build'')\<rparr>,
      armed = None, effects = []\<rparr>"

definition first_attempt :: durable_object where
  "first_attempt =
     \<lparr>stored = Some \<lparr>lastWebhookAt = Some 1000, scheduledFor = Some 61000, lastBuildAt = None,
                      lastBuildStatus = None, lastError = None, retryCount = Some 0,
                      delayMs = Some 60000, webhookUrl = Some (str ''https://example.com/build'')\<rparr>,
      armed = None, effects = []\<rparr>"

definition unconfigured :: Env where
  "unconfigured = \<lparr>BUILD_WEBHOOK_URL = None, BUILD_DELAY_SECONDS = None, BUILD_TRIGGER_METHOD = None\<rparr>"

definition example_parse :: "jsstring \<Rightarrow> URL option" where
  "example_parse s =
     (if s = str ''https://example.com/build''
      then Some \<lparr>protocol = str ''https:'', href = str ''https://example.com/build''\<rparr>
      else None)"

definition example_request :: "jsstring \<Rightarrow> Request" where
  "example_request delay =
     \<lparr>req_method = str ''POST'', req_pathname = str ''/'', x_webhook_secret = None,
      secret_param = None, x_webhook_url = Some (str ''https://example.com/build''),
      x_delay_seconds = Some delay\<rparr>"

section \<open>Properties of truncateError\<close>

lemma length_truncate_message: "length (truncate_message m) \<le> 500"
  by (simp add: truncate_message_def str_def)

text \<open>
  C6: an error message longer than 500 code units is stored as exactly 500 code units,
  the first 497 of the message followed by the marker \<open>...\<close>; a message of at most 500
  code units is stored unchanged; so the stored text never exceeds 500 code units. This
  holds for the message of an \<open>Error\<close> and for a thrown string alike.
\<close>

theorem truncateError_message:
  "truncateError (ErrorInstance m) = Inr (truncate_message m)
   \<and> truncateError (StringPrimitive m) = Inr (truncate_message m)
   \<and> (if length m > 500
      then length (truncate_message m) = 500
           \<and> take 497 (truncate_message m) = take 497 m
           \<and> drop 497 (truncate_message m) = str ''...''
      else truncate_message m = m)
   \<and> length (truncate_message m) \<le> 500"
  by (simp add: truncateError_def truncate_message_def str_def)

theorem truncateError_message_witness:
  "length (replicate 501 (65 :: 16 word)) > 500
   \<and> truncateError (ErrorInstance (replicate 501 65)) = Inr (replicate 497 65 @ str ''...'')
   \<and> length (replicate 497 (65 :: 16 word) @ str ''...'') = 500
   \<and> truncateError (StringPrimitive (replicate 3 65)) = Inr (replicate 3 65)"
  using truncateError_message [of "replicate 501 65"] truncateError_message [of "replicate 3 65"]
  by (simp add: truncate_message_def str_def)




section \<open>Properties of queueBuild\<close>

text \<open>
  \<open>queueBuild\<close> for a clock reading and a delay that are positive: when the timer
  accepts the scheduled time, the record is written, the alarm is set and the accepted
  values are returned; when it does not, the record is written all the same, no alarm
  is set and the call throws.
\<close>

lemma queueBuild_accepted:
  assumes "0 < now" and "0 < n" and "timer_accepts (now + n * 1000)"
  shows "queueBuild now url n d =
     (let state' = (getState d)\<lparr>lastWebhookAt := Some now, scheduledFor := Some (now + n * 1000),
                       retryCount := Some 0, delayMs := Some (n * 1000), webhookUrl := Some url\<rparr>
      in (Inr \<lparr>queued_lastWebhookAt = now, queued_scheduledFor = now + n * 1000,
               queued_delayMs = n * 1000\<rparr>,
          \<lparr>stored = Some state', armed = Some (now + n * 1000),
           effects = effects d @ [Put state', SetAlarm (now + n * 1000)]\<rparr>))"
proof -
  from assms(3) have "\<bar>now + n * 1000\<bar> \<le> 8640000000000000"
    by (simp add: timer_accepts_def)
  with assms(3) show ?thesis
    by (simp add: queueBuild_def Let_def setState_def setAlarm_def Date_toISOString_def)
qed

lemma queueBuild_refused:
  assumes "0 < now" and "0 < n" and "now + n * 1000 \<le> 9007199254740992"
    and "\<not> timer_accepts (now + n * 1000)"
  shows "queueBuild now url n d =
     (let state' = (getState d)\<lparr>lastWebhookAt := Some now, scheduledFor := Some (now + n * 1000),
                       retryCount := Some 0, delayMs := Some (n * 1000), webhookUrl := Some url\<rparr>
      in (Inl TypeError,
          \<lparr>stored = Some state', armed = armed d, effects = effects d @ [Put state']\<rparr>))"
  using assms(4)
  by (simp add: queueBuild_def Let_def setState_def setAlarm_def)

lemma queueBuild_retryCount: "retryCount_or_0 (getState (snd (queueBuild now url n d))) = 0"
  by (simp add: queueBuild_def Let_def setState_def setAlarm_def getState_def
      retryCount_or_0_def split: sum.splits)

text \<open>
  C3: \<open>queueBuild\<close> does not arm the timer and return the accepted values for every
  positive integer \<open>delaySeconds\<close>. A request at 1762000000000 ms (November 2025)
  with a delay of 8000000000 seconds gives \<open>scheduledFor = 9762000000000\<close>, in the
  year 2279 and beyond the last time the alarm takes. The record is written with this
  \<open>scheduledFor\<close>, then \<open>setAlarm\<close> throws a TypeError: no alarm is armed,
  nothing is returned, and the record is left with a \<open>scheduledFor\<close> that no timer
  stands for. The same happens with a delay of 8640000000000 seconds.
\<close>

theorem queueBuild_far_future_unarmed:
  "queueBuild 1762000000000 (str ''https://example.com/build'') 8000000000 fresh
     = (Inl TypeError,
        \<lparr>stored = Some \<lparr>lastWebhookAt = Some 1762000000000, scheduledFor = Some 9762000000000,
                         lastBuildAt = None, lastBuildStatus = None, lastError = None,
                         retryCount = Some 0, delayMs = Some 8000000000000,
                         webhookUrl = Some (str ''https://example.com/build'')\<rparr>,
         armed = None,
         effects = [Put \<lparr>lastWebhookAt = Some 1762000000000, scheduledFor = Some 9762000000000,
                         lastBuildAt = None, lastBuildStatus = None, lastError = None,
                         retryCount = Some 0, delayMs = Some 8000000000000,
                         webhookUrl = Some (str ''https://example.com/build'')\<rparr>]\<rparr>)
   \<and> fst (queueBuild 1762000000000 (str ''https://example.com/build'') 8640000000000 fresh)
     = Inl TypeError
   \<and> armed (snd (queueBuild 1762000000000 (str ''https://example.com/build'') 8640000000000 fresh))
     = None
   \<and> \<not> timer_consistent
        (snd (queueBuild 1762000000000 (str ''https://example.com/build'') 8000000000 fresh))"
  by (simp add: queueBuild_def timer_accepts_def Let_def fresh_def getState_def setState_def
      setAlarm_def timer_consistent_def)

section \<open>Properties of alarm\<close>

lemma getRetryDelayMs_table:
  "getRetryDelayMs 1 = Some 60000" "getRetryDelayMs 2 = Some 120000"
  "3 \<le> k \<Longrightarrow> getRetryDelayMs k = Some 300000"
  by (simp_all add: getRetryDelayMs_def Let_def min_def)

lemma getRetryDelayMs_positive:
  "1 \<le> k \<Longrightarrow> getRetryDelayMs k = Some (if k = 1 then 60000 else if k = 2 then 120000 else 300000)"
proof -
  assume "1 \<le> k"
  then consider "k = 1" | "k = 2" | "3 \<le> k" by linarith
  then show ?thesis
    by cases (simp_all add: getRetryDelayMs_table)
qed

lemma trigger_failure:
  "(case outcome of Responded status \<Rightarrow> \<not> response_ok status | Rejected m \<Rightarrow> True) \<Longrightarrow>
   trigger outcome = Some (ErrorInstance (case outcome of
        Responded status \<Rightarrow> str ''Build webhook responded with HTTP '' @ decimal status
      | Rejected m \<Rightarrow> m))"
  by (cases outcome) (simp_all add: trigger_def)

text \<open>
  The clock readings of the theorems below are times the timer accepts, with room for
  the longest retry delay: readings after the epoch and more than five minutes before
  the end of the timer's range in the year 2262.
\<close>

lemma timer_accepts_between:
  assumes "timer_accepts now" and "timer_accepts (now + 300000)"
    and "0 \<le> k" and "k \<le> 300000"
  shows "timer_accepts (now + k)" and "\<bar>now + k\<bar> \<le> 8640000000000000"
  using assms by (simp_all add: timer_accepts_def)

text \<open>
  The result of \<open>alarm\<close> after a failed trigger call, in full.
\<close>

lemma alarm_failure_path:
  assumes sched: "truthy_number (scheduledFor (getState d))"
    and url: "webhookUrl (getState d) = Some u" "u \<noteq> []"
    and failed: "case outcome of Responded status \<Rightarrow> \<not> response_ok status | Rejected m \<Rightarrow> True"
    and count: "0 \<le> retryCount_or_0 (getState d)"
    and clock: "timer_accepts now" "timer_accepts (now + 300000)"
  shows "alarm now outcome d =
    (let n = retryCount_or_0 (getState d) + 1;
         delay = (if n = 1 then 60000 else if n = 2 then 120000 else 300000);
         message = truncate_message (case outcome of
            Responded status \<Rightarrow> str ''Build webhook responded with HTTP '' @ decimal status
          | Rejected m \<Rightarrow> m);
         state' = (getState d)\<lparr>lastBuildAt := Some now, lastBuildStatus := Some Error,
                    lastError := Some message, retryCount := Some n,
                    scheduledFor := Some (now + delay)\<rparr>
     in (Inr (),
         \<lparr>stored = Some state', armed = Some (now + delay),
          effects = effects d @ [Fetch u (str ''POST''), Put state', SetAlarm (now + delay)]\<rparr>))"
proof -
  let ?n = "retryCount_or_0 (getState d) + 1"
  let ?delay = "if ?n = 1 then 60000 else if ?n = 2 then 120000 else (300000 :: int)"
  have d: "getRetryDelayMs ?n = Some ?delay"
    using count by (intro getRetryDelayMs_positive) simp
  have "0 \<le> ?delay" "?delay \<le> 300000" by simp_all
  from timer_accepts_between [OF clock this]
  have t: "timer_accepts (now + ?delay)" "\<bar>now + ?delay\<bar> \<le> 8640000000000000" .
  show ?thesis
    using sched url t
    by (simp add: alarm_def Let_def truthy_string_def trigger_failure [OF failed]
        alarm_catch_def d truncateError_def setState_def setAlarm_def Date_toISOString_def)
qed

text \<open>
  The retry count never becomes negative: \<open>queueBuild\<close> writes 0 and
  \<open>alarm\<close> writes 0 or one more than before.
\<close>

lemma alarm_retryCount_nonneg:
  assumes "0 \<le> retryCount_or_0 (getState d)"
  shows "0 \<le> retryCount_or_0 (getState (snd (alarm now outcome d)))"
  using assms
  by (auto simp add: alarm_def alarm_catch_def Let_def setState_def setAlarm_def getState_def
      retryCount_or_0_def split: option.splits sum.splits if_splits)

text \<open>
  C7: when \<open>scheduledFor\<close> is unset, \<open>alarm\<close> returns normally and leaves
  the object as it was: no request is sent, nothing is written, no alarm is set.
\<close>

theorem alarm_stale_noop:
  "scheduledFor (getState d) = None \<Longrightarrow> alarm now outcome d = (Inr (), d)"
  by (simp add: alarm_def truthy_number_def)

theorem alarm_stale_noop_witness:
  "scheduledFor (getState fresh) = None \<and> alarm 5 (Responded 200) fresh = (Inr (), fresh)"
  using alarm_stale_noop [of fresh 5 "Responded 200"]
  by (simp add: getState_def fresh_def)

text \<open>
  C9: a timestamp of 0 behaves as an unset one. With \<open>scheduledFor = 0\<close> the alarm
  handler returns without any effect; \<open>toIso 0\<close> is absent, and \<open>getStatus\<close>
  answers the same for a timestamp field holding 0 as for the field unset; with all
  three timestamps 0 it shows none of them.
\<close>

theorem zero_timestamp_as_unset:
  "alarm now outcome (d\<lparr>stored := Some (state\<lparr>scheduledFor := Some 0\<rparr>)\<rparr>)
     = (Inr (), d\<lparr>stored := Some (state\<lparr>scheduledFor := Some 0\<rparr>)\<rparr>)
   \<and> toIso (Some 0) = Inr None
   \<and> getStatus (d\<lparr>stored := Some (state\<lparr>lastWebhookAt := Some 0\<rparr>)\<rparr>)
     = getStatus (d\<lparr>stored := Some (state\<lparr>lastWebhookAt := None\<rparr>)\<rparr>)
   \<and> getStatus (d\<lparr>stored := Some (state\<lparr>scheduledFor := Some 0\<rparr>)\<rparr>)
     = getStatus (d\<lparr>stored := Some (state\<lparr>scheduledFor := None\<rparr>)\<rparr>)
   \<and> getStatus (d\<lparr>stored := Some (state\<lparr>lastBuildAt := Some 0\<rparr>)\<rparr>)
     = getStatus (d\<lparr>stored := Some (state\<lparr>lastBuildAt := None\<rparr>)\<rparr>)
   \<and> getStatus (d\<lparr>stored := Some (state\<lparr>lastWebhookAt := Some 0, scheduledFor := Some 0,
                                         lastBuildAt := Some 0\<rparr>)\<rparr>)
     = Inr \<lparr>status_lastWebhookAt = None, status_scheduledFor = None,
            status_lastBuildAt = None, status_lastBuildStatus = lastBuildStatus state,
            status_lastError = lastError state, status_retryCount = retryCount_or_0 state,
            status_delayMs = delayMs state, status_webhookUrl = webhookUrl state\<rparr>"
proof -
  have z: "toIso (Some 0) = Inr None" "toIso None = Inr None"
    by (simp_all add: toIso_def)
  have a: "alarm now outcome (d\<lparr>stored := Some (state\<lparr>scheduledFor := Some 0\<rparr>)\<rparr>)
     = (Inr (), d\<lparr>stored := Some (state\<lparr>scheduledFor := Some 0\<rparr>)\<rparr>)"
    by (simp add: alarm_def getState_def truthy_number_def)
  have g: "getStatus (d\<lparr>stored := Some (state\<lparr>lastWebhookAt := Some 0\<rparr>)\<rparr>)
     = getStatus (d\<lparr>stored := Some (state\<lparr>lastWebhookAt := None\<rparr>)\<rparr>)"
    "getStatus (d\<lparr>stored := Some (state\<lparr>scheduledFor := Some 0\<rparr>)\<rparr>)
     = getStatus (d\<lparr>stored := Some (state\<lparr>scheduledFor := None\<rparr>)\<rparr>)"
    "getStatus (d\<lparr>stored := Some (state\<lparr>lastBuildAt := Some 0\<rparr>)\<rparr>)
     = getStatus (d\<lparr>stored := Some (state\<lparr>lastBuildAt := None\<rparr>)\<rparr>)"
    by (simp_all add: getStatus_def getState_def Let_def retryCount_or_0_def z cong: sum.case_cong)
  have all: "getStatus (d\<lparr>stored := Some (state\<lparr>lastWebhookAt := Some 0, scheduledFor := Some 0,
                                         lastBuildAt := Some 0\<rparr>)\<rparr>)
     = Inr \<lparr>status_lastWebhookAt = None, status_scheduledFor = None,
            status_lastBuildAt = None, status_lastBuildStatus = lastBuildStatus state,
            status_lastError = lastError state, status_retryCount = retryCount_or_0 state,
            status_delayMs = delayMs state, status_webhookUrl = webhookUrl state\<rparr>"
    by (simp add: getStatus_def getState_def Let_def retryCount_or_0_def z)
  show ?thesis
    using z(1) a g all by (intro conjI)
qed

text \<open>
  C4: when the target answers with a status from 200 to 299, \<open>alarm\<close> returns
  normally, having sent one POST and written the record once, with \<open>scheduledFor\<close>
  and \<open>lastError\<close> unset, \<open>retryCount = 0\<close>, \<open>lastBuildStatus = success\<close>
  and \<open>lastBuildAt\<close> the time of execution.
\<close>

theorem alarm_success:
  assumes "truthy_number (scheduledFor (getState d))"
    and "webhookUrl (getState d) = Some u" and "u \<noteq> []"
    and "outcome = Responded status" and "response_ok status"
  shows "\<exists>state'. alarm now outcome d =
           (Inr (), d\<lparr>stored := Some state',
                       effects := effects d @ [Fetch u (str ''POST''), Put state']\<rparr>)
         \<and> state' = (getState d)\<lparr>lastBuildAt := Some now, lastBuildStatus := Some Success,
                        lastError := None, retryCount := Some 0, scheduledFor := None\<rparr>
         \<and> scheduledFor state' = None \<and> retryCount state' = Some 0
         \<and> lastBuildStatus state' = Some Success \<and> lastError state' = None
         \<and> lastBuildAt state' = Some now"
  using assms
  by (simp add: alarm_def Let_def truthy_string_def trigger_def setState_def)

theorem alarm_success_witness:
  "truthy_number (scheduledFor (getState pending))
   \<and> response_ok 204
   \<and> stored (snd (alarm 61000 (Responded 204) pending)) =
       Some \<lparr>lastWebhookAt = Some 1000, scheduledFor = None, lastBuildAt = Some 61000,
             lastBuildStatus = Some Success, lastError = None, retryCount = Some 0,
             delayMs = Some 60000, webhookUrl = Some (str ''https://example.com/build'')\<rparr>"
  using alarm_success [of pending "str ''https://example.com/build''" "Responded 204" 204 61000]
  by (auto simp add: pending_def getState_def truthy_number_def response_ok_def str_def)

text \<open>
  C2: the retry delay is 60000 ms for retry count 1, 120000 ms for 2 and 300000 ms for
  every count from 3 on; and whatever the (non-negative) retry count was, a failed
  trigger call sets the alarm to \<open>now\<close> plus the delay for the count after the
  increment, as its last effect. The clock reading \<open>now\<close> is one the timer accepts,
  with room for the longest delay.
\<close>

theorem alarm_retry_backoff:
  "getRetryDelayMs 1 = Some 60000 \<and> getRetryDelayMs 2 = Some 120000
   \<and> (\<forall>k\<ge>3. getRetryDelayMs k = Some 300000)
   \<and> (truthy_number (scheduledFor (getState d)) \<and> truthy_string (webhookUrl (getState d))
        \<and> (case outcome of Responded status \<Rightarrow> \<not> response_ok status | Rejected m \<Rightarrow> True)
        \<and> 0 \<le> retryCount_or_0 (getState d)
        \<and> timer_accepts now \<and> timer_accepts (now + 300000)
      \<longrightarrow> (\<exists>delay. getRetryDelayMs (retryCount_or_0 (getState d) + 1) = Some delay
             \<and> armed (snd (alarm now outcome d)) = Some (now + delay)
             \<and> last (effects (snd (alarm now outcome d))) = SetAlarm (now + delay)))"
proof (intro conjI impI allI)
  assume a: "truthy_number (scheduledFor (getState d)) \<and> truthy_string (webhookUrl (getState d))
        \<and> (case outcome of Responded status \<Rightarrow> \<not> response_ok status | Rejected m \<Rightarrow> True)
        \<and> 0 \<le> retryCount_or_0 (getState d)
        \<and> timer_accepts now \<and> timer_accepts (now + 300000)"
  then obtain u where u: "webhookUrl (getState d) = Some u" "u \<noteq> []"
    by (auto simp add: truthy_string_def split: option.splits)
  from a have n: "1 \<le> retryCount_or_0 (getState d) + 1" by simp
  show "\<exists>delay. getRetryDelayMs (retryCount_or_0 (getState d) + 1) = Some delay
             \<and> armed (snd (alarm now outcome d)) = Some (now + delay)
             \<and> last (effects (snd (alarm now outcome d))) = SetAlarm (now + delay)"
    using a alarm_failure_path [of d u outcome now, OF _ u] getRetryDelayMs_positive [OF n]
    by (simp add: Let_def)
qed (simp_all add: getRetryDelayMs_table)

theorem alarm_retry_backoff_witness:
  "truthy_number (scheduledFor (getState pending)) \<and> truthy_string (webhookUrl (getState pending))
   \<and> \<not> response_ok 500 \<and> retryCount_or_0 (getState pending) = 2
   \<and> timer_accepts 61000 \<and> timer_accepts (61000 + 300000)
   \<and> getRetryDelayMs 3 = Some 300000
   \<and> armed (snd (alarm 61000 (Responded 500) pending)) = Some 361000"
  using alarm_retry_backoff [of pending "Responded 500" 61000]
  by (auto simp add: pending_def getState_def truthy_number_def truthy_string_def response_ok_def
      retryCount_or_0_def str_def getRetryDelayMs_def timer_accepts_def)

text \<open>
  C5: when the target answers with a status outside 200 to 299 or the request is
  rejected, \<open>alarm\<close> sends one POST, writes the record and then sets the alarm, and
  returns. The record written has \<open>retryCount\<close> one higher; \<open>scheduledFor\<close> is
  \<open>now\<close> plus 60000 ms after the first failure, 120000 ms after the second and
  300000 ms after any later one; \<open>lastBuildAt = now\<close>;
  \<open>lastBuildStatus = error\<close>; and \<open>lastError\<close> is the description of the failure
  (the message of the rejection, or the line with the HTTP status), whole up to 500
  code units and cut to its first 497 followed by \<open>...\<close> beyond. The alarm is set
  for the new \<open>scheduledFor\<close>. The clock reading \<open>now\<close> is one the timer accepts,
  with room for the longest delay.
\<close>

theorem alarm_failure:
  assumes "truthy_number (scheduledFor (getState d))"
    and "webhookUrl (getState d) = Some u" and "u \<noteq> []"
    and "case outcome of Responded status \<Rightarrow> \<not> response_ok status | Rejected m \<Rightarrow> True"
    and "0 \<le> retryCount_or_0 (getState d)"
    and "timer_accepts now" and "timer_accepts (now + 300000)"
  shows "\<exists>description message delay state'.
           description = (case outcome of
               Responded status \<Rightarrow> str ''Build webhook responded with HTTP '' @ decimal status
             | Rejected m \<Rightarrow> m)
         \<and> message = (if length description > 500 then take 497 description @ str ''...''
                      else description)
         \<and> delay = (if retryCount_or_0 (getState d) = 0 then 60000
                    else if retryCount_or_0 (getState d) = 1 then 120000 else 300000)
         \<and> state' = (getState d)\<lparr>lastBuildAt := Some now, lastBuildStatus := Some Error,
                        lastError := Some message,
                        retryCount := Some (retryCount_or_0 (getState d) + 1),
                        scheduledFor := Some (now + delay)\<rparr>
         \<and> alarm now outcome d =
             (Inr (),
              \<lparr>stored = Some state', armed = Some (now + delay),
               effects = effects d
                 @ [Fetch u (str ''POST''), Put state', SetAlarm (now + delay)]\<rparr>)
         \<and> retryCount state' = Some (retryCount_or_0 (getState d) + 1)
         \<and> scheduledFor state' = Some (now + delay)
         \<and> lastBuildAt state' = Some now
         \<and> lastBuildStatus state' = Some Error
         \<and> lastError state' = Some message
         \<and> length message \<le> 500"
  using alarm_failure_path [OF assms]
  by (simp add: Let_def truncate_message_def str_def)

theorem alarm_failure_witness:
  "truthy_number (scheduledFor (getState first_attempt))
   \<and> 0 \<le> retryCount_or_0 (getState first_attempt)
   \<and> timer_accepts 61000 \<and> timer_accepts (61000 + 300000)
   \<and> alarm 61000 (Rejected (replicate 600 65)) first_attempt =
       (Inr (),
        \<lparr>stored = Some \<lparr>lastWebhookAt = Some 1000, scheduledFor = Some 121000,
                         lastBuildAt = Some 61000, lastBuildStatus = Some Error,
                         lastError = Some (replicate 497 65 @ str ''...''),
                         retryCount = Some 1, delayMs = Some 60000,
                         webhookUrl = Some (str ''https://example.com/build'')\<rparr>,
         armed = Some 121000,
         effects =
           [Fetch (str ''https://example.com/build'') (str ''POST''),
            Put \<lparr>lastWebhookAt = Some 1000, scheduledFor = Some 121000,
                 lastBuildAt = Some 61000, lastBuildStatus = Some Error,
                 lastError = Some (replicate 497 65 @ str ''...''),
                 retryCount = Some 1, delayMs = Some 60000,
                 webhookUrl = Some (str ''https://example.com/build'')\<rparr>,
            SetAlarm 121000]\<rparr>)
   \<and> \<not> response_ok 500
   \<and> stored (snd (alarm 61000 (Responded 500) pending)) =
       Some \<lparr>lastWebhookAt = Some 1000, scheduledFor = Some 361000, lastBuildAt = Some 61000,
             lastBuildStatus = Some Error,
             lastError = Some (str ''Build webhook responded with HTTP 500''),
             retryCount = Some 3,
             delayMs = Some 60000, webhookUrl = Some (str ''https://example.com/build'')\<rparr>"
  using alarm_failure [of first_attempt "str ''https://example.com/build''"
      "Rejected (replicate 600 65)" 61000]
    alarm_failure [of pending "str ''https://example.com/build''" "Responded 500" 61000]
  by (simp add: first_attempt_def pending_def getState_def truthy_number_def response_ok_def
      retryCount_or_0_def str_def timer_accepts_def decimal.simps)

section \<open>The record and the timer\<close>

lemma timer_consistent_getState:
  "timer_consistent d =
     (case scheduledFor (getState d) of None \<Rightarrow> True | Some t \<Rightarrow> armed d = Some t)"
  by (simp add: timer_consistent_def getState_def split: option.splits)

lemma queueBuild_timer_consistent:
  assumes "0 < now" and "0 < n" and "timer_accepts (now + n * 1000)"
  shows "timer_consistent (snd (queueBuild now url n d))"
  by (simp add: queueBuild_accepted [OF assms] Let_def timer_consistent_def)

text \<open>
  With a target in the record, a delivered alarm leaves record and timer in agreement
  on every path.
\<close>

lemma deliver_alarm_timer_consistent:
  assumes "timer_consistent d" and "truthy_string (webhookUrl (getState d))"
    and "0 \<le> retryCount_or_0 (getState d)" and "scheduledFor (getState d) \<noteq> Some 0"
    and clock: "timer_accepts now" "timer_accepts (now + 300000)"
  shows "timer_consistent (snd (deliver_alarm (alarm now outcome) d))"
proof (cases "armed d")
  case None
  with assms(1) show ?thesis by (simp add: deliver_alarm_def)
next
  case (Some t)
  let ?d = "d\<lparr>armed := None\<rparr>"
  have g: "getState ?d = getState d" by (simp add: getState_def)
  obtain u where u: "webhookUrl (getState d) = Some u" "u \<noteq> []"
    using assms(2) by (auto simp add: truthy_string_def split: option.splits)
  show ?thesis
  proof (cases "scheduledFor (getState d)")
    case None
    then have "alarm now outcome ?d = (Inr (), ?d)"
      by (simp add: alarm_def g truthy_number_def)
    with None Some show ?thesis
      by (simp add: deliver_alarm_def timer_consistent_getState g)
  next
    case (Some s)
    with assms(4) have s: "truthy_number (scheduledFor (getState ?d))"
      by (simp add: g truthy_number_def)
    show ?thesis
    proof (cases "trigger outcome")
      case None
      then show ?thesis
        using s u \<open>armed d = Some t\<close>
        by (simp add: deliver_alarm_def alarm_def g Let_def truthy_string_def setState_def
            timer_consistent_def)
    next
      case (Some e)
      then have f: "case outcome of Responded status \<Rightarrow> \<not> response_ok status | Rejected m \<Rightarrow> True"
        by (cases outcome) (simp_all add: trigger_def split: if_splits)
      show ?thesis
        using alarm_failure_path [of ?d u outcome now] s u f assms(3) clock \<open>armed d = Some t\<close>
        by (simp add: g deliver_alarm_def Let_def timer_consistent_def)
    qed
  qed
qed

text \<open>
  C1: the branch for a missing target does not keep record and timer in agreement. A
  new object without \<open>BUILD_WEBHOOK_URL\<close> is scheduled at 1000 ms with the default
  delay; record and timer agree. When the alarm is delivered at 901000 ms the handler
  records the error and returns: the record still has \<open>scheduledFor = 901000\<close> and
  no alarm is set. The handler that reads the target from the record does the same on
  this record, which has no \<open>webhookUrl\<close>.
\<close>

theorem config_error_leaves_scheduledFor_without_timer:
  "timer_consistent (snd (queueBuild_env unconfigured 1000 fresh))
   \<and> stored (snd (deliver_alarm (alarm_env unconfigured 901000 (Responded 200))
                (snd (queueBuild_env unconfigured 1000 fresh)))) =
       Some \<lparr>lastWebhookAt = Some 1000, scheduledFor = Some 901000, lastBuildAt = Some 901000,
             lastBuildStatus = Some Error,
             lastError = Some (str ''BUILD_WEBHOOK_URL not configured.''),
             retryCount = Some 1, delayMs = Some 900000, webhookUrl = None\<rparr>
   \<and> armed (snd (deliver_alarm (alarm_env unconfigured 901000 (Responded 200))
                (snd (queueBuild_env unconfigured 1000 fresh)))) = None
   \<and> \<not> timer_consistent (snd (deliver_alarm (alarm_env unconfigured 901000 (Responded 200))
                (snd (queueBuild_env unconfigured 1000 fresh))))
   \<and> \<not> timer_consistent (snd (deliver_alarm (alarm 901000 (Responded 200))
                (snd (queueBuild_env unconfigured 1000 fresh))))"
  by (simp add: queueBuild_env_def unconfigured_def fresh_def resolveDelayMs_def
      truthy_string_def truthy_number_def DEFAULT_DELAY_MS_def getState_def setState_def
      setAlarm_def Date_toISOString_def Let_def timer_consistent_def deliver_alarm_def
      alarm_env_def alarm_def retryCount_or_0_def timer_accepts_def)

section \<open>Properties of the gateway\<close>

lemma round_delay_seconds: "((n::int) * 1000 + 500) div 1000 = n" by simp

lemma queued_response: "(case queueBuild now url n d of
                         (Inl e, d') \<Rightarrow> (Inl e, d')
                       | (Inr result, d') \<Rightarrow>
                           (case Date_toISOString (queued_scheduledFor result) of
                              Inl e \<Rightarrow> (Inl e, d')
                            | Inr scheduledIso \<Rightarrow>
                                (Inr \<lparr>response_status = 202,
                                      response_body =
                                        QueuedJson scheduledIso ((queued_delayMs result + 500) div 1000)
                                          url\<rparr>, d')))
     = (if timer_accepts (now + n * 1000)
                       then Inr \<lparr>response_status = 202,
                                 response_body = QueuedJson (ISO (now + n * 1000)) n url\<rparr>
                       else Inl TypeError, snd (queueBuild now url n d))"
proof (cases "timer_accepts (now + n * 1000)")
  case True
  then have "\<bar>now + n * 1000\<bar> \<le> 8640000000000000"
    by (simp add: timer_accepts_def)
  with True show ?thesis
    by (simp add: queueBuild_def Let_def setState_def setAlarm_def Date_toISOString_def
        round_delay_seconds)
next
  case False
  then show ?thesis
    by (simp add: queueBuild_def Let_def setState_def setAlarm_def)
qed

text \<open>
  What the validation of the gateway does for a POST request that passes the secret
  check, at a clock reading after the epoch: it answers 400 and leaves the object
  untouched when \<open>x-webhook-url\<close> is missing or empty, does not parse, or has a
  protocol other than \<open>http:\<close> and \<open>https:\<close>, and when \<open>x-delay-seconds\<close>
  is missing or empty or \<open>parseInt\<close> reads no number, an infinite one or one that is
  not positive from it. Otherwise \<open>queueBuild\<close> runs with the serialised URL and the
  number read; the answer is 202 when the timer accepts the scheduled time, and the
  exception of \<open>setAlarm\<close> when it does not. A 202 answer is given only in this
  last case.
\<close>

theorem fetch_handler_validation:
  fixes parse :: "jsstring \<Rightarrow> URL option" and secret :: "jsstring option" and now :: int
    and request :: Request and d :: durable_object
  assumes clock: "0 < now"
    and post: "req_method request = str ''POST''"
    and auth: "\<not> truthy_string secret
               \<or> (case x_webhook_secret request of Some provided \<Rightarrow> Some provided
                   | None \<Rightarrow> secret_param request) = secret"
  defines "R \<equiv> fetch_handler parse secret now request d"
  shows "(\<not> truthy_string (x_webhook_url request) \<longrightarrow>
            R = (Inr \<lparr>response_status = 400,
                      response_body = Text (str ''Missing x-webhook-url header'')\<rparr>, d))
       \<and> (\<forall>h. x_webhook_url request = Some h \<and> h \<noteq> [] \<and> parse h = None \<longrightarrow>
            R = (Inr \<lparr>response_status = 400,
                      response_body = Text (str ''Invalid x-webhook-url header'')\<rparr>, d))
       \<and> (\<forall>h u. x_webhook_url request = Some h \<and> h \<noteq> [] \<and> parse h = Some u
              \<and> protocol u \<noteq> str ''http:'' \<and> protocol u \<noteq> str ''https:'' \<longrightarrow>
            R = (Inr \<lparr>response_status = 400,
                      response_body = Text (str ''Unsupported webhook protocol'')\<rparr>, d))
       \<and> (\<forall>h u. x_webhook_url request = Some h \<and> h \<noteq> [] \<and> parse h = Some u
              \<and> (protocol u = str ''http:'' \<or> protocol u = str ''https:'')
              \<and> \<not> truthy_string (x_delay_seconds request) \<longrightarrow>
            R = (Inr \<lparr>response_status = 400,
                      response_body = Text (str ''Missing x-delay-seconds header'')\<rparr>, d))
       \<and> (\<forall>h u s. x_webhook_url request = Some h \<and> h \<noteq> [] \<and> parse h = Some u
              \<and> (protocol u = str ''http:'' \<or> protocol u = str ''https:'')
              \<and> x_delay_seconds request = Some s \<and> s \<noteq> []
              \<and> (parseInt10 s = None
                  \<or> (\<exists>n. parseInt10 s = Some n \<and> (overflows_double n \<or> n \<le> 0))) \<longrightarrow>
            R = (Inr \<lparr>response_status = 400,
                      response_body = Text (str ''Invalid x-delay-seconds header'')\<rparr>, d))
       \<and> (\<forall>h u s n. x_webhook_url request = Some h \<and> h \<noteq> [] \<and> parse h = Some u
              \<and> (protocol u = str ''http:'' \<or> protocol u = str ''https:'')
              \<and> x_delay_seconds request = Some s \<and> s \<noteq> []
              \<and> parseInt10 s = Some n \<and> 0 < n \<and> now + n * 1000 \<le> 9007199254740992 \<longrightarrow>
            snd R = snd (queueBuild now (href u) n d)
            \<and> fst R = (if timer_accepts (now + n * 1000)
                       then Inr \<lparr>response_status = 202,
                                 response_body = QueuedJson (ISO (now + n * 1000)) n (href u)\<rparr>
                       else Inl TypeError))
       \<and> ((\<exists>r. fst R = Inr r \<and> response_status r = 202) \<longrightarrow>
            (\<exists>h u s n. x_webhook_url request = Some h \<and> parse h = Some u
              \<and> (protocol u = str ''http:'' \<or> protocol u = str ''https:'')
              \<and> x_delay_seconds request = Some s \<and> parseInt10 s = Some n \<and> 0 < n
              \<and> \<not> overflows_double n \<and> timer_accepts (now + n * 1000)
              \<and> snd R = snd (queueBuild now (href u) n d)))"
proof -
  have m: "str ''POST'' \<noteq> str ''OPTIONS''" "str ''POST'' \<noteq> str ''GET''"
    by (simp_all add: str_def)
  have pre: "R = (if \<not> truthy_string (x_webhook_url request) then
        (Inr \<lparr>response_status = 400,
              response_body = Text (str ''Missing x-webhook-url header'')\<rparr>, d)
      else
        (case parse (the (x_webhook_url request)) of
           None \<Rightarrow>
             (Inr \<lparr>response_status = 400,
                   response_body = Text (str ''Invalid x-webhook-url header'')\<rparr>, d)
         | Some parsedWebhookUrl \<Rightarrow>
             if protocol parsedWebhookUrl \<noteq> str ''http:''
                \<and> protocol parsedWebhookUrl \<noteq> str ''https:'' then
               (Inr \<lparr>response_status = 400,
                     response_body = Text (str ''Unsupported webhook protocol'')\<rparr>, d)
             else if \<not> truthy_string (x_delay_seconds request) then
               (Inr \<lparr>response_status = 400,
                     response_body = Text (str ''Missing x-delay-seconds header'')\<rparr>, d)
             else
               (case parseInt10 (the (x_delay_seconds request)) of
                  None \<Rightarrow>
                    (Inr \<lparr>response_status = 400,
                          response_body = Text (str ''Invalid x-delay-seconds header'')\<rparr>, d)
                | Some delaySeconds \<Rightarrow>
                    if overflows_double delaySeconds \<or> delaySeconds \<le> 0 then
                      (Inr \<lparr>response_status = 400,
                            response_body = Text (str ''Invalid x-delay-seconds header'')\<rparr>, d)
                    else
                      (case queueBuild now (href parsedWebhookUrl) delaySeconds d of
                         (Inl e, d') \<Rightarrow> (Inl e, d')
                       | (Inr result, d') \<Rightarrow>
                           (case Date_toISOString (queued_scheduledFor result) of
                              Inl e \<Rightarrow> (Inl e, d')
                            | Inr scheduledIso \<Rightarrow>
                                (Inr \<lparr>response_status = 202,
                                      response_body =
                                        QueuedJson scheduledIso ((queued_delayMs result + 500) div 1000)
                                          (href parsedWebhookUrl)\<rparr>, d'))))))"
  proof (cases "truthy_string secret")
    case False
    then show ?thesis by (simp only: R_def fetch_handler_def post m if_False simp_thms)
  next
    case True
    with auth have "(case x_webhook_secret request of Some provided \<Rightarrow> Some provided
                   | None \<Rightarrow> secret_param request) = secret" by simp
    then show ?thesis by (simp only: R_def fetch_handler_def post m if_False simp_thms)
  qed
  have c1: "\<not> truthy_string (x_webhook_url request) \<Longrightarrow>
            R = (Inr \<lparr>response_status = 400,
                      response_body = Text (str ''Missing x-webhook-url header'')\<rparr>, d)"
    by (simp add: pre)
  have c2: "R = (Inr \<lparr>response_status = 400,
                      response_body = Text (str ''Invalid x-webhook-url header'')\<rparr>, d)"
    if "x_webhook_url request = Some h" "h \<noteq> []" "parse h = None" for h
    using that by (simp add: pre truthy_string_def)
  have c3: "R = (Inr \<lparr>response_status = 400,
                      response_body = Text (str ''Unsupported webhook protocol'')\<rparr>, d)"
    if "x_webhook_url request = Some h" "h \<noteq> []" "parse h = Some u"
       "protocol u \<noteq> str ''http:''" "protocol u \<noteq> str ''https:''" for h u
    using that by (simp add: pre truthy_string_def)
  have c4: "R = (Inr \<lparr>response_status = 400,
                      response_body = Text (str ''Missing x-delay-seconds header'')\<rparr>, d)"
    if "x_webhook_url request = Some h" "h \<noteq> []" "parse h = Some u"
       "protocol u = str ''http:'' \<or> protocol u = str ''https:''"
       "\<not> truthy_string (x_delay_seconds request)" for h u
    using that by (auto simp add: pre truthy_string_def)
  have c5: "R = (Inr \<lparr>response_status = 400,
                      response_body = Text (str ''Invalid x-delay-seconds header'')\<rparr>, d)"
    if "x_webhook_url request = Some h" "h \<noteq> []" "parse h = Some u"
       "protocol u = str ''http:'' \<or> protocol u = str ''https:''"
       "x_delay_seconds request = Some s" "s \<noteq> []"
       "parseInt10 s = None
          \<or> (\<exists>n. parseInt10 s = Some n \<and> (overflows_double n \<or> n \<le> 0))" for h u s
    using that by (auto simp add: pre truthy_string_def)
  have c6: "R = (if timer_accepts (now + n * 1000)
                       then Inr \<lparr>response_status = 202,
                                 response_body = QueuedJson (ISO (now + n * 1000)) n (href u)\<rparr>
                       else Inl TypeError, snd (queueBuild now (href u) n d))"
    if "x_webhook_url request = Some h" "h \<noteq> []" "parse h = Some u"
       "protocol u = str ''http:'' \<or> protocol u = str ''https:''"
       "x_delay_seconds request = Some s" "s \<noteq> []"
       "parseInt10 s = Some n" "0 < n" "\<not> overflows_double n" for h u s n
    using that by (auto simp add: pre truthy_string_def queued_response)
  have c7: "\<exists>h u s n. x_webhook_url request = Some h \<and> parse h = Some u
              \<and> (protocol u = str ''http:'' \<or> protocol u = str ''https:'')
              \<and> x_delay_seconds request = Some s \<and> parseInt10 s = Some n \<and> 0 < n
              \<and> \<not> overflows_double n \<and> timer_accepts (now + n * 1000)
              \<and> snd R = snd (queueBuild now (href u) n d)"
    if ok: "fst R = Inr r" "response_status r = 202" for r
  proof (cases "x_webhook_url request")
    case None
    with c1 ok show ?thesis by (auto simp add: truthy_string_def)
  next
    case (Some h)
    note h = this
    show ?thesis
    proof (cases "h = []")
      case True
      with c1 h ok show ?thesis by (auto simp add: truthy_string_def)
    next
      case False
      note hne = this
      show ?thesis
      proof (cases "parse h")
        case None
        with c2 [OF h hne] ok show ?thesis by auto
      next
        case (Some u)
        note u = this
        show ?thesis
        proof (cases "protocol u = str ''http:'' \<or> protocol u = str ''https:''")
          case False
          with c3 [OF h hne u] ok show ?thesis by auto
        next
          case True
          note pr = this
          show ?thesis
          proof (cases "x_delay_seconds request")
            case None
            with c4 [OF h hne u pr] ok show ?thesis by (auto simp add: truthy_string_def)
          next
            case (Some s)
            note s = this
            show ?thesis
            proof (cases "s = []")
              case True
              with c4 [OF h hne u pr] s ok show ?thesis by (auto simp add: truthy_string_def)
            next
              case False
              note sne = this
              show ?thesis
              proof (cases "parseInt10 s")
                case None
                with c5 [OF h hne u pr s sne] ok show ?thesis by auto
              next
                case (Some n)
                note n = this
                show ?thesis
                proof (cases "0 < n \<and> \<not> overflows_double n")
                  case False
                  with c5 [OF h hne u pr s sne] n ok show ?thesis by auto
                next
                  case True
                  then have pos: "0 < n" and fin: "\<not> overflows_double n" by simp_all
                  note r = c6 [OF h hne u pr s sne n pos fin]
                  from r have w: "snd R = snd (queueBuild now (href u) n d)" by simp
                  from r ok have t: "timer_accepts (now + n * 1000)"
                    by (auto split: if_splits)
                  from h u pr s n pos fin t w show ?thesis by blast
                qed
              qed
            qed
          qed
        qed
      qed
    qed
  qed
  show ?thesis
  proof (intro conjI allI impI)
    fix h u s n
    assume a: "x_webhook_url request = Some h \<and> h \<noteq> [] \<and> parse h = Some u
              \<and> (protocol u = str ''http:'' \<or> protocol u = str ''https:'')
              \<and> x_delay_seconds request = Some s \<and> s \<noteq> []
              \<and> parseInt10 s = Some n \<and> 0 < n \<and> now + n * 1000 \<le> 9007199254740992"
    with clock have "\<not> overflows_double n" by (simp add: overflows_double_def)
    with a have r: "R = (if timer_accepts (now + n * 1000)
                       then Inr \<lparr>response_status = 202,
                                 response_body = QueuedJson (ISO (now + n * 1000)) n (href u)\<rparr>
                       else Inl TypeError, snd (queueBuild now (href u) n d))"
      using c6 [of h u s n] by simp
    show "snd R = snd (queueBuild now (href u) n d)" by (simp add: r)
    show "fst R = (if timer_accepts (now + n * 1000)
                       then Inr \<lparr>response_status = 202,
                                 response_body = QueuedJson (ISO (now + n * 1000)) n (href u)\<rparr>
                       else Inl TypeError)" by (simp add: r)
  qed (use c1 c2 c3 c4 c5 c7 in blast)+
qed

theorem fetch_handler_validation_witness:
  "req_method (example_request (str ''60'')) = str ''POST''
   \<and> parseInt10 (str ''60'') = Some 60
   \<and> fetch_handler example_parse None 1000 (example_request (str ''60'')) fresh
       = (Inr \<lparr>response_status = 202,
               response_body = QueuedJson (ISO 61000) 60 (str ''https://example.com/build'')\<rparr>,
          snd (queueBuild 1000 (str ''https://example.com/build'') 60 fresh))
   \<and> fetch_handler example_parse None 1000 (example_request (str ''soon'')) fresh
       = (Inr \<lparr>response_status = 400,
               response_body = Text (str ''Invalid x-delay-seconds header'')\<rparr>, fresh)"
proof -
  have p: "parseInt10 (str ''60'') = Some 60" "parseInt10 (str ''soon'') = None"
    by (simp_all add: parseInt10_def is_StrWhiteSpaceChar_def is_digit_def digits_value_def str_def)
  have e: "example_parse (str ''https://example.com/build'')
             = Some \<lparr>protocol = str ''https:'', href = str ''https://example.com/build''\<rparr>"
    by (simp add: example_parse_def)
  have n: "str ''60'' \<noteq> []" "str ''soon'' \<noteq> []" "str ''https://example.com/build'' \<noteq> []"
    by (simp_all add: str_def)
  show ?thesis
    using fetch_handler_validation [of 1000 "example_request (str ''60'')" None example_parse fresh]
      fetch_handler_validation [of 1000 "example_request (str ''soon'')" None example_parse fresh]
      p e n
    by (simp add: example_request_def truthy_string_def prod_eq_iff timer_accepts_def
        overflows_double_def)
qed

text \<open>
  C8: the gateway does not reject every request whose \<open>x-delay-seconds\<close> value is
  not a positive integer. A schedule request with the header value \<open>1.5\<close> is
  accepted: \<open>parseInt\<close> reads 1 from it, \<open>queueBuild\<close> is called with a delay
  of one second (the alarm is set for 2000 when the request arrives at 1000), and the
  answer is 202.
\<close>

theorem fetch_handler_accepts_fractional_delay:
  "parseInt10 (str ''1.5'') = Some 1
   \<and> map_sum id response_status
        (fst (fetch_handler example_parse None 1000 (example_request (str ''1.5'')) fresh)) = Inr 202
   \<and> armed (snd (fetch_handler example_parse None 1000 (example_request (str ''1.5'')) fresh))
        = Some 2000"
  by (simp add: fetch_handler_def example_parse_def example_request_def fresh_def
      truthy_string_def parseInt10_def is_StrWhiteSpaceChar_def is_digit_def digits_value_def
      queueBuild_def Let_def getState_def setState_def setAlarm_def Date_toISOString_def str_def
      timer_accepts_def overflows_double_def)

end
